theory Spec2Isabelle
  imports Complex_Main
begin

section \<open>CursorManager: the three identifier sets\<close>

text \<open>
  The class \<^verbatim>\<open>CursorManager\<close> of \<^verbatim>\<open>scrapper.py\<close> keeps three Python sets of app ids and two
  counters. Python's unbounded integers are \<^typ>\<open>int\<close>. Every method that touches the sets
  runs under \<^verbatim>\<open>main_lock\<close>, so a method call is one atomic step on the record below, and
  concurrent workers are an interleaving of such steps.
\<close>

record cursor_manager =
  processed_appids :: "int set"
  reserved_appids :: "int set"
  failed_appids :: "int set"
  total_games_found :: int
  last_batch_index :: int

text \<open>\<^verbatim>\<open>CursorManager.__init__\<close>: empty sets, zero counters.\<close>

definition CursorManager_init :: cursor_manager where
  "CursorManager_init =
     \<lparr>processed_appids = {}, reserved_appids = {}, failed_appids = {},
      total_games_found = 0, last_batch_index = 0\<rparr>"

text \<open>\<^verbatim>\<open>reserve_appid\<close> returns the boolean and the manager after the call.\<close>

definition reserve_appid :: "cursor_manager \<Rightarrow> int \<Rightarrow> bool \<times> cursor_manager" where
  "reserve_appid cm appid =
     (if appid \<in> processed_appids cm \<or> appid \<in> reserved_appids cm \<or> appid \<in> failed_appids cm
      then (False, cm)
      else (True, cm\<lparr>reserved_appids := insert appid (reserved_appids cm)\<rparr>))"

text \<open>
  \<^verbatim>\<open>mark_processed\<close>: \<^verbatim>\<open>discard\<close> from the reservations first; on success \<^verbatim>\<open>add\<close> to the
  processed set and \<^verbatim>\<open>discard\<close> from the failed set; otherwise only \<^verbatim>\<open>add\<close> to the failed
  set.
\<close>

definition mark_processed :: "cursor_manager \<Rightarrow> int \<Rightarrow> bool \<Rightarrow> cursor_manager" where
  "mark_processed cm appid success =
     (let cm1 = cm\<lparr>reserved_appids := reserved_appids cm - {appid}\<rparr> in
      if success
      then cm1\<lparr>processed_appids := insert appid (processed_appids cm1),
               failed_appids := failed_appids cm1 - {appid}\<rparr>
      else cm1\<lparr>failed_appids := insert appid (failed_appids cm1)\<rparr>)"

definition release_reservation :: "cursor_manager \<Rightarrow> int \<Rightarrow> cursor_manager" where
  "release_reservation cm appid = cm\<lparr>reserved_appids := reserved_appids cm - {appid}\<rparr>"

text \<open>
  A catalogue entry is a dictionary; \<^verbatim>\<open>game.get('appid')\<close> is \<^const>\<open>None\<close> when the key is
  missing. Python's \<^verbatim>\<open>if appid\<close> is false for \<^verbatim>\<open>None\<close> and for \<^verbatim>\<open>0\<close>.
\<close>

record game =
  game_appid :: "int option"
  game_name :: string

definition truthy_appid :: "int option \<Rightarrow> bool" where
  "truthy_appid a = (case a of None \<Rightarrow> False | Some i \<Rightarrow> i \<noteq> 0)"

text \<open>
  The loop of \<^verbatim>\<open>get_remaining_games\<close>, with \<^verbatim>\<open>all_blocked\<close> computed once before it and
  \<^verbatim>\<open>remaining\<close> as the accumulator.
\<close>

fun remaining_loop :: "int set \<Rightarrow> game list \<Rightarrow> game list \<Rightarrow> game list" where
  "remaining_loop all_blocked [] remaining = remaining"
| "remaining_loop all_blocked (g # gs) remaining =
     remaining_loop all_blocked gs
       (if truthy_appid (game_appid g) \<and> the (game_appid g) \<notin> all_blocked
        then remaining @ [g] else remaining)"

definition get_remaining_games :: "cursor_manager \<Rightarrow> game list \<Rightarrow> game list" where
  "get_remaining_games cm all_games =
     remaining_loop (processed_appids cm \<union> reserved_appids cm) all_games []"

text \<open>
  Calls of the three mutating methods, by any worker, in the order in which they take
  the lock. \<^verbatim>\<open>run_ops\<close> replays such a history.
\<close>

datatype cursor_op =
    Reserve int
  | Release int
  | MarkProcessed int bool

fun apply_cursor_op :: "cursor_manager \<Rightarrow> cursor_op \<Rightarrow> cursor_manager" where
  "apply_cursor_op cm (Reserve i) = snd (reserve_appid cm i)"
| "apply_cursor_op cm (Release i) = release_reservation cm i"
| "apply_cursor_op cm (MarkProcessed i s) = mark_processed cm i s"

fun run_ops :: "cursor_manager \<Rightarrow> cursor_op list \<Rightarrow> cursor_manager" where
  "run_ops cm [] = cm"
| "run_ops cm (opn # ops) = run_ops (apply_cursor_op cm opn) ops"

text \<open>How many \<^verbatim>\<open>reserve_appid(i)\<close> calls of a history returned \<^verbatim>\<open>True\<close>.\<close>

fun granted :: "int \<Rightarrow> cursor_manager \<Rightarrow> cursor_op list \<Rightarrow> nat" where
  "granted i cm [] = 0"
| "granted i cm (opn # ops) =
     (if opn = Reserve i \<and> fst (reserve_appid cm i) then 1 else 0)
     + granted i (apply_cursor_op cm opn) ops"

text \<open>An operation that ends a reservation of \<open>i\<close>.\<close>

fun frees :: "int \<Rightarrow> cursor_op \<Rightarrow> bool" where
  "frees i (Reserve j) = False"
| "frees i (Release j) = (i = j)"
| "frees i (MarkProcessed j s) = (i = j)"

section \<open>ThreadSafeCounter\<close>

text \<open>
  \<^verbatim>\<open>_max_value\<close> is \<^verbatim>\<open>None\<close> or an integer. The guard \<^verbatim>\<open>self._max_value and ...\<close> tests its
  truthiness: \<^verbatim>\<open>None\<close> and \<^verbatim>\<open>0\<close> are false.
\<close>

record counter =
  c_value :: int
  c_max_value :: "int option"

definition ThreadSafeCounter_init :: "int \<Rightarrow> int option \<Rightarrow> counter" where
  "ThreadSafeCounter_init initial max_value = \<lparr>c_value = initial, c_max_value = max_value\<rparr>"

text \<open>The guard of \<^verbatim>\<open>increment\<close>: a truthy maximum that the value has reached.\<close>

definition at_max :: "counter \<Rightarrow> bool" where
  "at_max c = (case c_max_value c of None \<Rightarrow> False | Some m \<Rightarrow> m \<noteq> 0 \<and> m \<le> c_value c)"

text \<open>\<^verbatim>\<open>increment\<close> returns the pair \<^verbatim>\<open>(accepted, value)\<close> and the counter after the call.\<close>

definition increment :: "counter \<Rightarrow> (bool \<times> int) \<times> counter" where
  "increment c =
     (if at_max c then ((False, c_value c), c)
      else ((True, c_value c + 1), c\<lparr>c_value := c_value c + 1\<rparr>))"

definition decrement :: "counter \<Rightarrow> int \<times> counter" where
  "decrement c = (max 0 (c_value c - 1), c\<lparr>c_value := max 0 (c_value c - 1)\<rparr>)"

text \<open>
  \<^verbatim>\<open>reached_limit\<close> returns the value of \<^verbatim>\<open>self._max_value and self._value >= self._max_value\<close>:
  the falsy left operand itself (\<^verbatim>\<open>None\<close> or \<^verbatim>\<open>0\<close>), or else the comparison.
\<close>

datatype pyval = PyNone | PyInt int | PyBool bool

fun truthy :: "pyval \<Rightarrow> bool" where
  "truthy PyNone = False"
| "truthy (PyInt i) = (i \<noteq> 0)"
| "truthy (PyBool b) = b"

definition reached_limit :: "counter \<Rightarrow> pyval" where
  "reached_limit c =
     (case c_max_value c of
        None \<Rightarrow> PyNone
      | Some m \<Rightarrow> if m = 0 then PyInt 0 else PyBool (m \<le> c_value c))"

datatype counter_op = Increment | Decrement

fun apply_counter_op :: "counter \<Rightarrow> counter_op \<Rightarrow> counter" where
  "apply_counter_op c Increment = snd (increment c)"
| "apply_counter_op c Decrement = snd (decrement c)"

fun run_counter :: "counter \<Rightarrow> counter_op list \<Rightarrow> counter" where
  "run_counter c [] = c"
| "run_counter c (opn # ops) = run_counter (apply_counter_op c opn) ops"

section \<open>Checkpoint files\<close>

text \<open>
  The manager names three files: \<^verbatim>\<open>progress_file\<close> (the primary), \<^verbatim>\<open>backup_file\<close> and the
  temporary file \<^verbatim>\<open>progress_file + ".tmp"\<close>. They are three different files; a file system
  gives each of them no content (the file does not exist), content from which
  \<^verbatim>\<open>load_state\<close> assigns nothing (\<^verbatim>\<open>json.load\<close> raises, or the value is not an object and the
  first \<^verbatim>\<open>data.get\<close> raises), or a JSON object.

  \<^verbatim>\<open>load_state\<close> reads five keys of the object. Each of the three id keys is missing (the
  default \<^verbatim>\<open>[]\<close> is read), or an array of integers, which \<^verbatim>\<open>set(...)\<close> turns into a set, or a
  value on which \<^verbatim>\<open>set(...)\<close> raises (a number, \<^verbatim>\<open>null\<close>, a boolean). The array is kept as the
  set of its members: \<^verbatim>\<open>save_state\<close> writes \<^verbatim>\<open>list(...)\<close> of a set and \<^verbatim>\<open>load_state\<close> reads it back
  through \<^verbatim>\<open>set(...)\<close>. The two counters are missing (the default 0 is read) or integers.
  Values of other types, which would put something other than integers into the manager,
  are not modelled: the attributes are sets of integers and integers.
\<close>

datatype path = ProgressFile | BackupFile | TempFile

datatype json_ids = Absent | Ids "int set" | NotIds

record json_doc =
  jd_processed_appids :: json_ids
  jd_reserved_appids :: json_ids
  jd_failed_appids :: json_ids
  jd_total_games_found :: "int option"
  jd_last_batch_index :: "int option"
  jd_timestamp :: real

datatype file_content = Unparseable | Document json_doc

type_synonym filesystem = "path \<Rightarrow> file_content option"

text \<open>\<^verbatim>\<open>os.replace(src, dst)\<close> for an existing \<^verbatim>\<open>src\<close>: one atomic rename.\<close>

definition os_replace :: "filesystem \<Rightarrow> path \<Rightarrow> path \<Rightarrow> filesystem" where
  "os_replace fs src dst = (fs(src := None))(dst := fs src)"

text \<open>\<^verbatim>\<open>set(data.get(key, []))\<close>: \<^const>\<open>None\<close> when it raises.\<close>

definition read_ids :: "json_ids \<Rightarrow> int set option" where
  "read_ids v = (case v of Absent \<Rightarrow> Some {} | Ids s \<Rightarrow> Some s | NotIds \<Rightarrow> None)"

definition read_int :: "int option \<Rightarrow> int" where
  "read_int v = (case v of None \<Rightarrow> 0 | Some i \<Rightarrow> i)"

text \<open>
  The five assignments to the dictionary \<^verbatim>\<open>state\<close>, in their order. The dictionary has the
  five keys of the manager and is modelled by a manager. The result says whether all five
  were made (\<^verbatim>\<open>break\<close>) or one raised (\<^verbatim>\<open>continue\<close>); the assignments made before the raise
  stay.
\<close>

definition load_doc :: "cursor_manager \<Rightarrow> json_doc \<Rightarrow> bool \<times> cursor_manager" where
  "load_doc state d =
     (case read_ids (jd_processed_appids d) of
        None \<Rightarrow> (False, state)
      | Some p \<Rightarrow>
          (case read_ids (jd_reserved_appids d) of
             None \<Rightarrow> (False, state\<lparr>processed_appids := p\<rparr>)
           | Some r \<Rightarrow>
               (case read_ids (jd_failed_appids d) of
                  None \<Rightarrow> (False, state\<lparr>processed_appids := p, reserved_appids := r\<rparr>)
                | Some f \<Rightarrow>
                    (True,
                     state\<lparr>processed_appids := p, reserved_appids := r, failed_appids := f,
                           total_games_found := read_int (jd_total_games_found d),
                           last_batch_index := read_int (jd_last_batch_index d)\<rparr>))))"

text \<open>
  The loop of \<^verbatim>\<open>load_state\<close> over \<^verbatim>\<open>[progress_file, backup_file]\<close>: a missing file is skipped,
  a file that raises while loading is skipped with what it has assigned, the first file
  that loads ends the loop.
\<close>

fun load_from :: "filesystem \<Rightarrow> path list \<Rightarrow> cursor_manager \<Rightarrow> cursor_manager" where
  "load_from fs [] state = state"
| "load_from fs (file_path # rest) state =
     (case fs file_path of
        None \<Rightarrow> load_from fs rest state
      | Some Unparseable \<Rightarrow> load_from fs rest state
      | Some (Document d) \<Rightarrow>
          (if fst (load_doc state d) then snd (load_doc state d)
           else load_from fs rest (snd (load_doc state d))))"

text \<open>
  \<^verbatim>\<open>load_state\<close> starts from the clean state and assigns all five attributes of the manager
  from the dictionary, so the result is a manager.
\<close>

definition load_state :: "filesystem \<Rightarrow> cursor_manager" where
  "load_state fs = load_from fs [ProgressFile, BackupFile] CursorManager_init"

text \<open>
  What one call of \<^verbatim>\<open>save_state\<close> meets outside the program: the clock, and which of its
  file operations raise.
\<close>

record save_env =
  se_now :: real
  se_backup_raises :: bool
  se_write_raises :: bool
  se_replace_raises :: bool
  se_restore_raises :: bool

text \<open>The dictionary \<^verbatim>\<open>save_state\<close> dumps.\<close>

definition snapshot :: "cursor_manager \<Rightarrow> real \<Rightarrow> json_doc" where
  "snapshot cm now =
     \<lparr>jd_processed_appids = Ids (processed_appids cm),
      jd_reserved_appids = Ids (reserved_appids cm),
      jd_failed_appids = Ids (failed_appids cm),
      jd_total_games_found = Some (total_games_found cm),
      jd_last_batch_index = Some (last_batch_index cm), jd_timestamp = now\<rparr>"

text \<open>The three numbered steps of \<^verbatim>\<open>save_state\<close>, when none of them raises.\<close>

definition rotate_backup :: "filesystem \<Rightarrow> filesystem" where
  "rotate_backup fs =
     (if fs ProgressFile \<noteq> None then os_replace fs ProgressFile BackupFile else fs)"

definition write_temp :: "filesystem \<Rightarrow> cursor_manager \<Rightarrow> real \<Rightarrow> filesystem" where
  "write_temp fs cm now = fs(TempFile \<mapsto> Document (snapshot cm now))"

definition commit_temp :: "filesystem \<Rightarrow> filesystem" where
  "commit_temp fs = os_replace fs TempFile ProgressFile"

text \<open>The handler of the outer \<^verbatim>\<open>except\<close>: put the backup back in the primary's place.\<close>

definition restore_backup :: "save_env \<Rightarrow> filesystem \<Rightarrow> filesystem" where
  "restore_backup env fs =
     (if fs BackupFile \<noteq> None \<and> \<not> se_restore_raises env
      then os_replace fs BackupFile ProgressFile else fs)"

text \<open>
  \<^verbatim>\<open>save_state\<close>. A failed rotation is logged and the save goes on; a write that raises
  leaves a truncated temporary file; a write or a final rename that raises runs the handler.
\<close>

definition save_state :: "filesystem \<Rightarrow> cursor_manager \<Rightarrow> save_env \<Rightarrow> filesystem" where
  "save_state fs cm env =
     (let fs1 = (if se_backup_raises env then fs else rotate_backup fs) in
      if se_write_raises env then restore_backup env (fs1(TempFile \<mapsto> Unparseable))
      else
        let fs2 = write_temp fs1 cm (se_now env) in
        if se_replace_raises env then restore_backup env fs2 else commit_temp fs2)"

text \<open>
  A file from which \<^verbatim>\<open>load_state\<close> reads all five keys, and what it reads from it. Every
  file \<^verbatim>\<open>save_state\<close> writes is such a file.
\<close>

definition complete :: "json_doc \<Rightarrow> bool" where
  "complete d =
     (jd_processed_appids d \<noteq> NotIds \<and> jd_reserved_appids d \<noteq> NotIds
      \<and> jd_failed_appids d \<noteq> NotIds)"

definition manager_of :: "json_doc \<Rightarrow> cursor_manager" where
  "manager_of d =
     \<lparr>processed_appids = the (read_ids (jd_processed_appids d)),
      reserved_appids = the (read_ids (jd_reserved_appids d)),
      failed_appids = the (read_ids (jd_failed_appids d)),
      total_games_found = read_int (jd_total_games_found d),
      last_batch_index = read_int (jd_last_batch_index d)\<rparr>"

definition is_document :: "file_content option \<Rightarrow> bool" where
  "is_document c = (case c of Some (Document d) \<Rightarrow> True | _ \<Rightarrow> False)"

definition missing_or_complete :: "file_content option \<Rightarrow> bool" where
  "missing_or_complete c =
     (case c of None \<Rightarrow> True | Some Unparseable \<Rightarrow> False | Some (Document d) \<Rightarrow> complete d)"

section \<open>make\_request\<close>

text \<open>
  One iteration of the retry loop meets: the two events (\<^verbatim>\<open>stop_processing\<close> or \<^verbatim>\<open>goal_reached\<close>
  set when the iteration starts), what \<^verbatim>\<open>requests.get\<close> does (a response with a status code
  and a body, or a \<^verbatim>\<open>RequestException\<close>), and the value drawn by \<^verbatim>\<open>random.uniform(0, 1)\<close>.
  The trace records the calls of \<^verbatim>\<open>requests.get\<close> and of \<^verbatim>\<open>time.sleep\<close>.

  Sleeping times are real numbers, with one exception that the code has: in
  \<^verbatim>\<open>(2 ** attempt) + random.uniform(0, 1)\<close> the integer power is converted to a float, and from
  attempt 1024 on that conversion raises \<^verbatim>\<open>OverflowError\<close>, which
  \<^verbatim>\<open>except requests.RequestException\<close> does not catch: it leaves \<^verbatim>\<open>make_request\<close>.
\<close>

datatype http_outcome = Response int string | RequestException

record attempt_env =
  ae_flag_set :: bool
  ae_outcome :: http_outcome
  ae_jitter :: real

record request_trace =
  rt_gets :: nat
  rt_sleeps :: "real list"

datatype request_result = Returned "(int \<times> string) option" | RaisedOverflowError

text \<open>\<^verbatim>\<open>response.raise_for_status()\<close> raises \<^verbatim>\<open>HTTPError\<close>, a \<^verbatim>\<open>RequestException\<close>, on 4xx and 5xx.\<close>

definition raises_for_status :: "int \<Rightarrow> bool" where
  "raises_for_status status = (400 \<le> status \<and> status < 600)"

definition slept :: "request_trace \<Rightarrow> real \<Rightarrow> request_trace" where
  "slept tr wait_time = tr\<lparr>rt_sleeps := rt_sleeps tr @ [wait_time]\<rparr>"

text \<open>The \<^verbatim>\<open>for attempt in range(retries)\<close> loop, over the attempts still to come.\<close>

fun make_request_loop ::
  "(nat \<Rightarrow> attempt_env) \<Rightarrow> int \<Rightarrow> nat list \<Rightarrow> request_trace
     \<Rightarrow> request_result \<times> request_trace" where
  "make_request_loop env retries [] tr = (Returned None, tr)"
| "make_request_loop env retries (attempt # rest) tr =
     (if ae_flag_set (env attempt) then (Returned None, tr)
      else
        let tr1 = tr\<lparr>rt_gets := rt_gets tr + 1\<rparr>;
            on_exception =
              (if int attempt = retries - 1 then (Returned None, tr1)
               else make_request_loop env retries rest
                      (slept tr1 (min (0.5 * (real attempt + 1)) 3)))
        in case ae_outcome (env attempt) of
             Response status body \<Rightarrow>
               if status = 429
               then
                 (if 1024 \<le> attempt then (RaisedOverflowError, tr1)
                  else make_request_loop env retries rest
                         (slept tr1 (min (2 ^ attempt + ae_jitter (env attempt)) 10)))
               else if raises_for_status status then on_exception
               else (Returned (Some (status, body)), tr1)
           | RequestException \<Rightarrow> on_exception)"

definition make_request ::
  "(nat \<Rightarrow> attempt_env) \<Rightarrow> int \<Rightarrow> request_result \<times> request_trace" where
  "make_request env retries =
     make_request_loop env retries [0..<nat retries] \<lparr>rt_gets = 0, rt_sleeps = []\<rparr>"

text \<open>
  The words of the specification. An attempt is rate limited (HTTP 429) or meets another
  request error; the sleep that follows attempt \<open>a\<close> is \<open>min (2 ^ a + jitter) 10\<close> after a 429
  and \<open>min (0.5 * (a + 1)) 3\<close> after another request error. An attempt goes on to the next
  one when no event is set as it starts and it is rate limited below attempt 1024, or
  meets another request error and is not the last attempt.
\<close>

definition is_request_error :: "http_outcome \<Rightarrow> bool" where
  "is_request_error out =
     (case out of Response status body \<Rightarrow> status \<noteq> 429 \<and> raises_for_status status
                | RequestException \<Rightarrow> True)"

definition is_rate_limited :: "http_outcome \<Rightarrow> bool" where
  "is_rate_limited out = (case out of Response status body \<Rightarrow> status = 429 | RequestException \<Rightarrow> False)"

definition sleep_after :: "(nat \<Rightarrow> attempt_env) \<Rightarrow> nat \<Rightarrow> real" where
  "sleep_after env a =
     (if is_rate_limited (ae_outcome (env a)) then min (2 ^ a + ae_jitter (env a)) 10
      else min (0.5 * (real a + 1)) 3)"

definition goes_on :: "(nat \<Rightarrow> attempt_env) \<Rightarrow> int \<Rightarrow> nat \<Rightarrow> bool" where
  "goes_on env retries a =
     (if ae_flag_set (env a) then False
      else if is_rate_limited (ae_outcome (env a)) then a < 1024
      else is_request_error (ae_outcome (env a)) \<and> int a \<noteq> retries - 1)"

section \<open>get\_app\_reviews\<close>

text \<open>
  A review is an opaque record of the remote service. One page request
  (\<^verbatim>\<open>make_request\<close> with one attempt, then \<^verbatim>\<open>response.json()\<close>) ends in one of three ways:
  no response, a body that is not JSON, or a document with its \<^verbatim>\<open>success\<close> flag, its
  \<^verbatim>\<open>reviews\<close> list and its \<^verbatim>\<open>cursor\<close> (\<^const>\<open>None\<close> when the key is missing). The remote
  service answers a request made of the page number, \<^verbatim>\<open>num_per_page\<close> and the cursor sent.
\<close>

type_synonym review = string

datatype page_outcome = NoResponse | BadJson | Page bool "review list" "string option"

record reviews_env =
  re_entry_flag_set :: bool
  re_flag_set :: "nat \<Rightarrow> bool"
  re_fetch :: "nat \<Rightarrow> int \<Rightarrow> string \<Rightarrow> page_outcome"

text \<open>
  The \<^verbatim>\<open>for page in range(max_pages)\<close> loop. The result is the accumulated list and the
  number of page requests made.
\<close>

fun reviews_loop ::
  "reviews_env \<Rightarrow> int \<Rightarrow> nat list \<Rightarrow> review list \<Rightarrow> string \<Rightarrow> nat \<Rightarrow> review list \<times> nat" where
  "reviews_loop env num_reviews [] reviews cursor fetched = (reviews, fetched)"
| "reviews_loop env num_reviews (page # rest) reviews cursor fetched =
     (if re_flag_set env page \<or> num_reviews \<le> int (length reviews) then (reviews, fetched)
      else
        case re_fetch env page (min 100 (num_reviews - int (length reviews))) cursor of
          NoResponse \<Rightarrow> (reviews, fetched + 1)
        | BadJson \<Rightarrow> (reviews, fetched + 1)
        | Page success new_reviews next_cursor \<Rightarrow>
            if success \<and> new_reviews \<noteq> []
            then
              (case next_cursor of
                 None \<Rightarrow> (reviews @ new_reviews, fetched + 1)
               | Some c \<Rightarrow>
                   if c = [] \<or> new_reviews = [] then (reviews @ new_reviews, fetched + 1)
                   else reviews_loop env num_reviews rest (reviews @ new_reviews) c (fetched + 1))
            else (reviews, fetched + 1))"

text \<open>Python's \<^verbatim>\<open>xs[:n]\<close>, also for a negative \<open>n\<close>.\<close>

definition py_prefix :: "'a list \<Rightarrow> int \<Rightarrow> 'a list" where
  "py_prefix xs n = take (nat (if 0 \<le> n then n else int (length xs) + n)) xs"

definition get_app_reviews :: "reviews_env \<Rightarrow> int \<Rightarrow> review list \<times> nat" where
  "get_app_reviews env num_reviews =
     (if re_entry_flag_set env then ([], 0)
      else
        let max_pages = min 10 ((num_reviews + 99) div 100);
            r = reviews_loop env num_reviews [0..<nat max_pages] [] ''*'' 0
        in (py_prefix (fst r) num_reviews, snd r))"


section \<open>processar\_um\_jogo\<close>

text \<open>
  The detail payload, as far as \<^verbatim>\<open>_is_valid_game\<close> reads it. An entry of \<^verbatim>\<open>categories\<close> is
  a dictionary with its \<^verbatim>\<open>id\<close> (if any), or something that is not a dictionary.
\<close>

datatype category = CategoryDict "int option" | CategoryOther

record details =
  d_type :: "string option"
  d_name :: "string option"
  d_categories :: "category list"

definition is_dlc_category :: "category \<Rightarrow> bool" where
  "is_dlc_category cat = (case cat of CategoryDict i \<Rightarrow> i = Some 21 | CategoryOther \<Rightarrow> False)"

definition is_valid_game :: "details \<Rightarrow> bool" where
  "is_valid_game d =
     (if d_type d \<noteq> Some ''game'' then False
      else if d_name d = None \<or> d_name d = Some [] then False
      else if list_ex is_dlc_category (d_categories d) then False
      else True)"

text \<open>
  What one call of \<^verbatim>\<open>processar_um_jogo\<close> meets outside itself. \<^verbatim>\<open>get_app_details\<close> returns
  nothing (or an empty payload) or a payload. The two events can be set at any moment by
  another worker or by the signal handler: \<open>ie_goal_set\<close> and \<open>ie_stop_set\<close> say whether that
  has happened when the code reaches a place. An unexpected exception can leave the
  \<^verbatim>\<open>try\<close> block at any of five stages: in \<^verbatim>\<open>get_app_details\<close>, in \<^verbatim>\<open>_is_valid_game\<close>, after the
  counter has admitted the item, while reviews are handled, and after the item has been
  marked processed.
\<close>

datatype fetch_result = NoPayload | Payload details

datatype place = AtEntry | AfterFetch | AfterAdmit | BeforeReviews | ReviewSave nat | AtEnd

datatype stage = Fetching | Validating | Admitted | Reviewing | Finishing

record item_env =
  ie_goal_set :: "place \<Rightarrow> bool"
  ie_stop_set :: "place \<Rightarrow> bool"
  ie_raises :: "stage \<Rightarrow> bool"
  ie_details :: fetch_result
  ie_save_details :: bool
  ie_reviews :: reviews_env
  ie_save_review :: "nat \<Rightarrow> bool"

record args =
  max_games :: int
  max_reviews :: int

text \<open>
  The shared objects the function works on: the manager, the counter, the two events and
  the two output files (\<^verbatim>\<open>safe_save_jsonl\<close> appends one line and returns \<^verbatim>\<open>True\<close>, or returns
  \<^verbatim>\<open>False\<close>).
\<close>

record world =
  w_cursor :: cursor_manager
  w_counter :: counter
  w_goal_reached :: bool
  w_stop_processing :: bool
  w_details_file :: "(int \<times> details) list"
  w_reviews_file :: "(int \<times> review) list"

text \<open>The events as they stand when the code reaches a place; an event once set stays set.\<close>

definition observe :: "item_env \<Rightarrow> place \<Rightarrow> world \<Rightarrow> world" where
  "observe env p w =
     w\<lparr>w_goal_reached := w_goal_reached w \<or> ie_goal_set env p,
       w_stop_processing := w_stop_processing w \<or> ie_stop_set env p\<rparr>"

definition mark_failed :: "int \<Rightarrow> world \<Rightarrow> world" where
  "mark_failed appid w = w\<lparr>w_cursor := mark_processed (w_cursor w) appid False\<rparr>"

text \<open>The events as \<^verbatim>\<open>get_app_reviews\<close> reads them, called in world \<open>w\<close>.\<close>

definition reviews_env_of :: "item_env \<Rightarrow> world \<Rightarrow> reviews_env" where
  "reviews_env_of env w =
     (ie_reviews env)
       \<lparr>re_entry_flag_set :=
          re_entry_flag_set (ie_reviews env) \<or> w_goal_reached w \<or> w_stop_processing w,
        re_flag_set :=
          (\<lambda>page. re_flag_set (ie_reviews env) page \<or> w_goal_reached w \<or> w_stop_processing w)\<rparr>"

text \<open>The loop that saves the reviews, \<open>k\<close> counting the reviews seen.\<close>

fun save_reviews :: "item_env \<Rightarrow> int \<Rightarrow> world \<Rightarrow> nat \<Rightarrow> review list \<Rightarrow> world" where
  "save_reviews env appid w k [] = w"
| "save_reviews env appid w k (r # rs) =
     (let w1 = observe env (ReviewSave k) w in
      if w_stop_processing w1 \<or> w_goal_reached w1 then w1
      else save_reviews env appid
             (if ie_save_review env k
              then w1\<lparr>w_reviews_file := w_reviews_file w1 @ [(appid, r)]\<rparr> else w1)
             (k + 1) rs)"

text \<open>
  The body of the \<^verbatim>\<open>try\<close> block: \<^term>\<open>Some b\<close> when it returns \<open>b\<close>, \<^const>\<open>None\<close> when an
  exception leaves it, each with the world at that moment.
\<close>

definition admit :: "item_env \<Rightarrow> args \<Rightarrow> int \<Rightarrow> details \<Rightarrow> world \<Rightarrow> bool option \<times> world" where
  "admit env a appid dt w1 =
     (if ie_raises env Admitted then (None, w1)
      else if \<not> ie_save_details env
      then (Some False, mark_failed appid (w1\<lparr>w_counter := snd (decrement (w_counter w1))\<rparr>))
      else
        let w2 = w1\<lparr>w_details_file := w_details_file w1 @ [(appid, dt)]\<rparr>;
            w3 = observe env BeforeReviews w2
        in if ie_raises env Reviewing then (None, w3)
           else
             let w4 = (if 0 < max_reviews a \<and> \<not> w_goal_reached w3
                       then save_reviews env appid w3 0
                              (fst (get_app_reviews (reviews_env_of env w3) (max_reviews a)))
                       else w3);
                 w5 = w4\<lparr>w_cursor := mark_processed (w_cursor w4) appid True\<rparr>;
                 w6 = observe env AtEnd w5;
                 w7 = (if truthy (reached_limit (w_counter w6)) \<and> \<not> w_goal_reached w6
                       then w6\<lparr>w_goal_reached := True\<rparr> else w6)
             in if ie_raises env Finishing then (None, w7) else (Some True, w7))"

definition try_block :: "item_env \<Rightarrow> args \<Rightarrow> int \<Rightarrow> world \<Rightarrow> bool option \<times> world" where
  "try_block env a appid w0 =
     (if ie_raises env Fetching then (None, w0)
      else
        let w = observe env AfterFetch w0 in
        case ie_details env of
          NoPayload \<Rightarrow> (Some False, mark_failed appid w)
        | Payload dt \<Rightarrow>
            if w_goal_reached w then (Some False, mark_failed appid w)
            else if ie_raises env Validating then (None, w)
            else if \<not> is_valid_game dt then (Some False, mark_failed appid w)
            else
              let r = increment (w_counter w);
                  success = fst (fst r);
                  w1 = observe env AfterAdmit (w\<lparr>w_counter := snd r\<rparr>)
              in if w_goal_reached w1 \<or> \<not> success
                 then (Some False, (mark_failed appid w1)\<lparr>w_goal_reached := True\<rparr>)
                 else admit env a appid dt w1)"

text \<open>
  \<^verbatim>\<open>processar_um_jogo\<close>: the checks before the reservation, the reservation, the early
  check of the limit, the \<^verbatim>\<open>try\<close> block and the \<^verbatim>\<open>except\<close> handler, which releases the
  reservation and calls \<^verbatim>\<open>games_counter.decrement()\<close>.
\<close>

definition processar_um_jogo :: "item_env \<Rightarrow> args \<Rightarrow> game \<Rightarrow> world \<Rightarrow> bool \<times> world" where
  "processar_um_jogo env a app w00 =
     (let w0 = observe env AtEntry w00 in
      if w_stop_processing w0 \<or> w_goal_reached w0 then (False, w0)
      else
        case game_appid app of
          None \<Rightarrow> (False, w0)
        | Some appid \<Rightarrow>
            if appid = 0 then (False, w0)
            else
              let r = reserve_appid (w_cursor w0) appid in
              if \<not> fst r then (False, w0)
              else
                let w1 = w0\<lparr>w_cursor := snd r\<rparr> in
                if truthy (reached_limit (w_counter w1))
                then (False, w1\<lparr>w_cursor := release_reservation (w_cursor w1) appid,
                                 w_goal_reached := True\<rparr>)
                else
                  case try_block env a appid w1 of
                    (Some result, w2) \<Rightarrow> (result, w2)
                  | (None, w2) \<Rightarrow>
                      (False, w2\<lparr>w_cursor := release_reservation (w_cursor w2) appid,
                                  w_counter := snd (decrement (w_counter w2))\<rparr>))"

section \<open>Example inputs\<close>

text \<open>
  Three attempts of \<^verbatim>\<open>make_request\<close>: a 429 with jitter one half, a connection error, and the
  stop event set before the third. Two attempts: a connection error, then a response 200.
  And a service that answers 429 to every attempt.
\<close>

definition example_attempts :: "nat \<Rightarrow> attempt_env" where
  "example_attempts k =
     (if k = 0 then \<lparr>ae_flag_set = False, ae_outcome = Response 429 [], ae_jitter = 1 / 2\<rparr>
      else if k = 1 then \<lparr>ae_flag_set = False, ae_outcome = RequestException, ae_jitter = 0\<rparr>
      else \<lparr>ae_flag_set = True, ae_outcome = RequestException, ae_jitter = 0\<rparr>)"

definition example_retry :: "nat \<Rightarrow> attempt_env" where
  "example_retry k =
     (if k = 0 then \<lparr>ae_flag_set = False, ae_outcome = RequestException, ae_jitter = 0\<rparr>
      else \<lparr>ae_flag_set = False, ae_outcome = Response 200 ''ok'', ae_jitter = 0\<rparr>)"

definition always_rate_limited :: "nat \<Rightarrow> attempt_env" where
  "always_rate_limited k = \<lparr>ae_flag_set = False, ae_outcome = Response 429 [], ae_jitter = 0\<rparr>"

text \<open>
  A damaged primary beside a good backup that holds the manager \<open>example_saved\<close>, and the
  manager \<open>example_current\<close> about to be saved.
\<close>

definition example_saved :: cursor_manager where
  "example_saved = CursorManager_init\<lparr>processed_appids := {1}\<rparr>"

definition example_current :: cursor_manager where
  "example_current = CursorManager_init\<lparr>processed_appids := {1, 2}, failed_appids := {3}\<rparr>"

definition example_damaged :: filesystem where
  "example_damaged =
     (\<lambda>p. None)(ProgressFile \<mapsto> Unparseable, BackupFile \<mapsto> Document (snapshot example_saved 1))"

definition example_sound :: filesystem where
  "example_sound = (\<lambda>p. None)(ProgressFile \<mapsto> Document (snapshot example_saved 1))"

definition example_save_env :: save_env where
  "example_save_env =
     \<lparr>se_now = 2, se_backup_raises = False, se_write_raises = False,
      se_replace_raises = False, se_restore_raises = False\<rparr>"

text \<open>
  A review service with two records and a cursor on the first page, and a cursor but no
  records on every later page.
\<close>

definition example_reviews :: reviews_env where
  "example_reviews =
     \<lparr>re_entry_flag_set = False, re_flag_set = (\<lambda>page. False),
      re_fetch = (\<lambda>page num_per_page cursor.
        if page = 0 then Page True [''first'', ''second''] (Some ''c1'')
        else Page True [] (Some ''c2''))\<rparr>"

text \<open>
  One catalogue entry handled in a fresh run whose counter stands at 2 of 10: a valid
  game, no event set, every write succeeding, and an exception at the given stage (if
  any).
\<close>

definition example_details :: details where
  "example_details = \<lparr>d_type = Some ''game'', d_name = Some ''Half-Life'', d_categories = []\<rparr>"

definition example_item :: "stage option \<Rightarrow> item_env" where
  "example_item raising =
     \<lparr>ie_goal_set = (\<lambda>p. False), ie_stop_set = (\<lambda>p. False),
      ie_raises = (\<lambda>s. raising = Some s), ie_details = Payload example_details,
      ie_save_details = True, ie_reviews = example_reviews, ie_save_review = (\<lambda>k. True)\<rparr>"

definition example_world :: world where
  "example_world =
     \<lparr>w_cursor = CursorManager_init, w_counter = ThreadSafeCounter_init 2 (Some 10),
      w_goal_reached = False, w_stop_processing = False,
      w_details_file = [], w_reviews_file = []\<rparr>"

definition example_args :: args where
  "example_args = \<lparr>max_games = 10, max_reviews = 0\<rparr>"

definition example_game :: game where
  "example_game = \<lparr>game_appid = Some 70, game_name = ''Half-Life''\<rparr>"

section \<open>Properties of the CursorManager\<close>

lemma blocked_preserved:
  "i \<in> processed_appids cm \<union> reserved_appids cm \<union> failed_appids cm \<Longrightarrow> \<not> frees i opn \<Longrightarrow>
   i \<in> processed_appids (apply_cursor_op cm opn) \<union> reserved_appids (apply_cursor_op cm opn)
       \<union> failed_appids (apply_cursor_op cm opn)"
  by (cases opn) (auto simp: reserve_appid_def release_reservation_def mark_processed_def Let_def)

lemma granted_blocked:
  "i \<in> processed_appids cm \<union> reserved_appids cm \<union> failed_appids cm \<Longrightarrow>
   \<forall>opn \<in> set ops. \<not> frees i opn \<Longrightarrow> granted i cm ops = 0"
proof (induction ops arbitrary: cm)
  case Nil
  then show ?case by simp
next
  case (Cons opn ops)
  have here: "\<not> fst (reserve_appid cm i)"
    using Cons.prems(1) by (auto simp: reserve_appid_def)
  have "granted i (apply_cursor_op cm opn) ops = 0"
    using Cons.IH [of "apply_cursor_op cm opn"] blocked_preserved [of i cm opn] Cons.prems
    by simp
  with here show ?case by simp
qed

lemma blocked_after_grant:
  "fst (reserve_appid cm i) \<Longrightarrow> i \<in> reserved_appids (snd (reserve_appid cm i))"
  by (auto simp: reserve_appid_def split: if_splits)

lemma granted_le_one:
  "\<forall>opn \<in> set ops. \<not> frees i opn \<Longrightarrow> granted i cm ops \<le> 1"
proof (induction ops arbitrary: cm)
  case Nil
  then show ?case by simp
next
  case (Cons opn ops)
  show ?case
  proof (cases "opn = Reserve i \<and> fst (reserve_appid cm i)")
    case True
    then have "i \<in> reserved_appids (apply_cursor_op cm opn)"
      using blocked_after_grant [of cm i] by simp
    then have "granted i (apply_cursor_op cm opn) ops = 0"
      using granted_blocked [of i "apply_cursor_op cm opn" ops] Cons.prems by simp
    with True show ?thesis by simp
  next
    case False
    then show ?thesis using Cons.IH [of "apply_cursor_op cm opn"] Cons.prems by auto
  qed
qed

text \<open>
  C1. \<^verbatim>\<open>reserve_appid(i)\<close> returns \<^verbatim>\<open>False\<close> and changes nothing when \<open>i\<close> is processed, reserved
  or failed; otherwise it adds \<open>i\<close> to the reservations and returns \<^verbatim>\<open>True\<close>. Hence in any
  history of calls, by any workers, that holds no \<^verbatim>\<open>release_reservation(i)\<close> and no
  \<^verbatim>\<open>mark_processed(i, _)\<close>, at most one \<^verbatim>\<open>reserve_appid(i)\<close> returns \<^verbatim>\<open>True\<close>.
\<close>

theorem reserve_appid_exclusive:
  "(i \<in> processed_appids cm \<union> reserved_appids cm \<union> failed_appids cm \<longrightarrow>
      reserve_appid cm i = (False, cm))
   \<and> (i \<notin> processed_appids cm \<union> reserved_appids cm \<union> failed_appids cm \<longrightarrow>
      reserve_appid cm i = (True, cm\<lparr>reserved_appids := insert i (reserved_appids cm)\<rparr>))
   \<and> ((\<forall>opn \<in> set ops. \<not> frees i opn) \<longrightarrow> granted i cm ops \<le> 1)"
  using granted_le_one [of ops i cm] by (auto simp: reserve_appid_def)

theorem reserve_appid_exclusive_witness:
  "reserve_appid (CursorManager_init\<lparr>failed_appids := {7}\<rparr>) 7
     = (False, CursorManager_init\<lparr>failed_appids := {7}\<rparr>)
   \<and> reserve_appid CursorManager_init 7 = (True, CursorManager_init\<lparr>reserved_appids := {7}\<rparr>)
   \<and> granted 7 CursorManager_init
       [Reserve 7, Reserve 8, Reserve 7, MarkProcessed 8 False, Reserve 7] \<le> 1"
proof -
  have a: "(7::int) \<in> processed_appids (CursorManager_init\<lparr>failed_appids := {7}\<rparr>)
      \<union> reserved_appids (CursorManager_init\<lparr>failed_appids := {7}\<rparr>)
      \<union> failed_appids (CursorManager_init\<lparr>failed_appids := {7}\<rparr>)"
    by simp
  have b: "(7::int) \<notin> processed_appids CursorManager_init \<union> reserved_appids CursorManager_init
      \<union> failed_appids CursorManager_init"
    by (simp add: CursorManager_init_def)
  have c: "\<forall>opn \<in> set [Reserve 7, Reserve 8, Reserve 7, MarkProcessed 8 False, Reserve 7].
      \<not> frees 7 opn"
    by simp
  have d: "CursorManager_init\<lparr>reserved_appids := insert 7 (reserved_appids CursorManager_init)\<rparr>
      = CursorManager_init\<lparr>reserved_appids := {7}\<rparr>"
    by (simp add: CursorManager_init_def)
  show ?thesis
    using reserve_appid_exclusive [of 7 "CursorManager_init\<lparr>failed_appids := {7}\<rparr>" "[]"]
      reserve_appid_exclusive [of 7 CursorManager_init
        "[Reserve 7, Reserve 8, Reserve 7, MarkProcessed 8 False, Reserve 7]"] a b c d
    by metis
qed

text \<open>
  The history above grants exactly one reservation of 7, and a release in
  between allows a second one.
\<close>

lemma granted_once:
  "granted 7 CursorManager_init
     [Reserve 7, Reserve 8, Reserve 7, MarkProcessed 8 False, Reserve 7] = 1"
  by (simp add: CursorManager_init_def reserve_appid_def mark_processed_def)

lemma granted_again_after_release:
  "granted 7 CursorManager_init [Reserve 7, Release 7, Reserve 7] = 2"
  by (simp add: CursorManager_init_def reserve_appid_def release_reservation_def)

text \<open>
  C3. \<^verbatim>\<open>mark_processed(i, success)\<close> removes \<open>i\<close> from the reservations and adds it to the
  processed set (success) or to the failed set (failure). The success branch discards
  \<open>i\<close> from the failed set; the failure branch does not discard it from the processed set.
  The history below, from a fresh manager, reserves 5, marks it processed and then marks
  it failed: 5 ends in both terminal sets.
\<close>

theorem mark_processed_failure_overlap:
  "5 \<in> processed_appids
         (run_ops CursorManager_init [Reserve 5, MarkProcessed 5 True, MarkProcessed 5 False])
   \<and> 5 \<in> failed_appids
         (run_ops CursorManager_init [Reserve 5, MarkProcessed 5 True, MarkProcessed 5 False])"
  by (simp add: CursorManager_init_def reserve_appid_def mark_processed_def)

text \<open>What the two branches of \<^verbatim>\<open>mark_processed\<close> do to the three sets.\<close>

lemma mark_processed_success:
  "reserved_appids (mark_processed cm i True) = reserved_appids cm - {i}
   \<and> processed_appids (mark_processed cm i True) = insert i (processed_appids cm)
   \<and> failed_appids (mark_processed cm i True) = failed_appids cm - {i}"
  by (simp add: mark_processed_def)

lemma mark_processed_failure:
  "reserved_appids (mark_processed cm i False) = reserved_appids cm - {i}
   \<and> processed_appids (mark_processed cm i False) = processed_appids cm
   \<and> failed_appids (mark_processed cm i False) = insert i (failed_appids cm)"
  by (simp add: mark_processed_def)

lemma remaining_loop_filter:
  "remaining_loop B gs acc =
   acc @ filter (\<lambda>g. case game_appid g of None \<Rightarrow> False | Some i \<Rightarrow> i \<noteq> 0 \<and> i \<notin> B) gs"
  by (induction gs arbitrary: acc) (auto simp: truthy_appid_def split: option.splits)

lemma get_remaining_games_eq:
  "get_remaining_games cm all_games =
     filter (\<lambda>g. case game_appid g of None \<Rightarrow> False
                 | Some i \<Rightarrow> i \<noteq> 0 \<and> i \<notin> processed_appids cm \<and> i \<notin> reserved_appids cm) all_games"
  by (auto simp: get_remaining_games_def remaining_loop_filter intro!: filter_cong
      split: option.splits)

text \<open>
  C7, as the code has it. \<^verbatim>\<open>get_remaining_games(all_games)\<close> returns, in their order, exactly
  the input games that have an \<^verbatim>\<open>appid\<close> other than 0 which is neither processed nor
  reserved. A failed id that is neither processed nor reserved is returned; a processed
  id never is.
\<close>

theorem get_remaining_games_filter:
  "get_remaining_games cm all_games =
     filter (\<lambda>g. case game_appid g of None \<Rightarrow> False
                 | Some i \<Rightarrow> i \<noteq> 0 \<and> i \<notin> processed_appids cm \<and> i \<notin> reserved_appids cm) all_games
   \<and> (g \<in> set all_games \<and> game_appid g = Some i \<and> i \<noteq> 0 \<and> i \<in> failed_appids cm
        \<and> i \<notin> processed_appids cm \<and> i \<notin> reserved_appids cm
      \<longrightarrow> g \<in> set (get_remaining_games cm all_games))
   \<and> (g \<in> set (get_remaining_games cm all_games) \<and> game_appid g = Some i
      \<longrightarrow> i \<notin> processed_appids cm)"
  by (auto simp: get_remaining_games_eq)

theorem get_remaining_games_filter_witness:
  "get_remaining_games
     \<lparr>processed_appids = {10}, reserved_appids = {20}, failed_appids = {30},
      total_games_found = 1, last_batch_index = 0\<rparr>
     [\<lparr>game_appid = Some 10, game_name = ''a''\<rparr>, \<lparr>game_appid = Some 20, game_name = ''b''\<rparr>,
      \<lparr>game_appid = Some 30, game_name = ''c''\<rparr>, \<lparr>game_appid = Some 40, game_name = ''d''\<rparr>,
      \<lparr>game_appid = None, game_name = ''e''\<rparr>]
   = [\<lparr>game_appid = Some 30, game_name = ''c''\<rparr>, \<lparr>game_appid = Some 40, game_name = ''d''\<rparr>]"
  using get_remaining_games_filter
    [of "\<lparr>processed_appids = {10}, reserved_appids = {20}, failed_appids = {30},
          total_games_found = 1, last_batch_index = 0\<rparr>"
        "[\<lparr>game_appid = Some 10, game_name = ''a''\<rparr>, \<lparr>game_appid = Some 20, game_name = ''b''\<rparr>,
          \<lparr>game_appid = Some 30, game_name = ''c''\<rparr>, \<lparr>game_appid = Some 40, game_name = ''d''\<rparr>,
          \<lparr>game_appid = None, game_name = ''e''\<rparr>]"
        "\<lparr>game_appid = Some 30, game_name = ''c''\<rparr>" 30]
  by simp

text \<open>
  A game whose \<^verbatim>\<open>appid\<close> is 0 is not returned, although 0 is neither processed nor
  reserved.
\<close>

theorem get_remaining_games_zero_appid:
  "(0::int) \<notin> processed_appids CursorManager_init \<and> 0 \<notin> reserved_appids CursorManager_init
   \<and> get_remaining_games CursorManager_init [\<lparr>game_appid = Some 0, game_name = ''zero''\<rparr>] = []"
  by (simp add: CursorManager_init_def get_remaining_games_def truthy_appid_def)

section \<open>Properties of the ThreadSafeCounter\<close>

lemma apply_counter_op_max: "c_max_value (apply_counter_op c opn) = c_max_value c"
  by (cases opn) (simp_all add: increment_def decrement_def)

lemma run_counter_max: "c_max_value (run_counter c ops) = c_max_value c"
  by (induction ops arbitrary: c) (simp_all add: apply_counter_op_max)

lemma apply_counter_op_bounds:
  "c_max_value c = Some M \<Longrightarrow> 1 \<le> M \<Longrightarrow> 0 \<le> c_value c \<Longrightarrow> c_value c \<le> M \<Longrightarrow>
   0 \<le> c_value (apply_counter_op c opn) \<and> c_value (apply_counter_op c opn) \<le> M
   \<and> c_max_value (apply_counter_op c opn) = Some M"
  by (cases opn) (auto simp: increment_def decrement_def at_max_def)

lemma run_counter_bounds:
  "c_max_value c = Some M \<Longrightarrow> 1 \<le> M \<Longrightarrow> 0 \<le> c_value c \<Longrightarrow> c_value c \<le> M \<Longrightarrow>
   0 \<le> c_value (run_counter c ops) \<and> c_value (run_counter c ops) \<le> M"
proof (induction ops arbitrary: c)
  case Nil
  then show ?case by simp
next
  case (Cons opn ops)
  from apply_counter_op_bounds [OF Cons.prems, of opn]
  show ?case using Cons.IH [of "apply_counter_op c opn"] Cons.prems(2) by simp
qed

text \<open>
  C5, as the code has it. For a counter built with a maximum \<open>M \<ge> 1\<close> and an initial value
  between 0 and \<open>M\<close>, after any sequence of \<^verbatim>\<open>increment\<close> and \<^verbatim>\<open>decrement\<close> calls the value is
  between 0 and \<open>M\<close>; \<^verbatim>\<open>increment\<close> refuses, leaving the value, exactly when the value has
  reached \<open>M\<close>, and \<^verbatim>\<open>decrement\<close> takes one off, floored at zero.
\<close>

theorem counter_within_bounds:
  assumes "1 \<le> M" and "0 \<le> initial" and "initial \<le> M"
    and "c = run_counter (ThreadSafeCounter_init initial (Some M)) ops"
  shows "0 \<le> c_value c \<and> c_value c \<le> M
    \<and> (M \<le> c_value c \<longrightarrow> increment c = ((False, c_value c), c))
    \<and> (c_value c < M \<longrightarrow> increment c = ((True, c_value c + 1), c\<lparr>c_value := c_value c + 1\<rparr>))
    \<and> c_value (snd (decrement c)) = max 0 (c_value c - 1)"
proof -
  have m: "c_max_value c = Some M"
    using assms(4) by (simp add: run_counter_max ThreadSafeCounter_init_def)
  have b: "0 \<le> c_value c \<and> c_value c \<le> M"
    using run_counter_bounds [of "ThreadSafeCounter_init initial (Some M)" M ops] assms
    by (simp add: ThreadSafeCounter_init_def)
  show ?thesis
    using m b assms(1) by (auto simp: increment_def decrement_def at_max_def)
qed

theorem counter_within_bounds_witness:
  "0 \<le> c_value (run_counter (ThreadSafeCounter_init 1 (Some 2))
            [Increment, Increment, Increment, Decrement, Decrement, Decrement, Increment])
   \<and> c_value (run_counter (ThreadSafeCounter_init 1 (Some 2))
            [Increment, Increment, Increment, Decrement, Decrement, Decrement, Increment]) \<le> 2
   \<and> increment (run_counter (ThreadSafeCounter_init 1 (Some 2)) [Increment, Increment])
       = ((False, 2), \<lparr>c_value = 2, c_max_value = Some 2\<rparr>)
   \<and> increment (run_counter (ThreadSafeCounter_init 1 (Some 2)) [Decrement])
       = ((True, 1), \<lparr>c_value = 1, c_max_value = Some 2\<rparr>)
   \<and> c_value (snd (decrement (run_counter (ThreadSafeCounter_init 1 (Some 2)) [Decrement]))) = 0"
proof -
  have v1: "\<lparr>c_value = 2, c_max_value = Some 2\<rparr>
      = run_counter (ThreadSafeCounter_init 1 (Some 2)) [Increment, Increment]"
    by (simp add: ThreadSafeCounter_init_def increment_def at_max_def)
  have v2: "\<lparr>c_value = 0, c_max_value = Some 2\<rparr>
      = run_counter (ThreadSafeCounter_init 1 (Some 2)) [Decrement]"
    by (simp add: ThreadSafeCounter_init_def decrement_def)
  have a: "0 \<le> c_value (run_counter (ThreadSafeCounter_init 1 (Some 2))
            [Increment, Increment, Increment, Decrement, Decrement, Decrement, Increment])
      \<and> c_value (run_counter (ThreadSafeCounter_init 1 (Some 2))
            [Increment, Increment, Increment, Decrement, Decrement, Decrement, Increment]) \<le> 2"
    using counter_within_bounds [of 2 1 _
        "[Increment, Increment, Increment, Decrement, Decrement, Decrement, Increment]", OF _ _ _ refl]
    by simp
  have b: "increment \<lparr>c_value = 2, c_max_value = Some 2\<rparr>
      = ((False, 2), \<lparr>c_value = 2, c_max_value = Some 2\<rparr>)"
    using counter_within_bounds [of 2 1, OF _ _ _ v1] by simp
  have c: "increment \<lparr>c_value = 0, c_max_value = Some 2\<rparr>
        = ((True, 1), \<lparr>c_value = 1, c_max_value = Some 2\<rparr>)
      \<and> c_value (snd (decrement \<lparr>c_value = 0, c_max_value = Some 2\<rparr>)) = 0"
    using counter_within_bounds [of 2 1, OF _ _ _ v2] by simp
  show ?thesis
    using a b c unfolding v1 [symmetric] v2 [symmetric] by blast
qed

text \<open>
  A counter built with the initial value \<open>-2\<close> and the maximum 1 holds a negative value
  after an accepted \<^verbatim>\<open>increment\<close>.
\<close>

theorem counter_negative_initial:
  "(-2::int) \<le> 1 \<and> c_value (run_counter (ThreadSafeCounter_init (-2) (Some 1)) [Increment]) < 0"
  by (simp add: ThreadSafeCounter_init_def increment_def at_max_def)

text \<open>
  C10. A counter built with \<^verbatim>\<open>max_value\<close> \<^verbatim>\<open>None\<close> or 0 accepts every \<^verbatim>\<open>increment\<close>, which adds
  one, and \<^verbatim>\<open>reached_limit\<close> never returns \<^verbatim>\<open>True\<close> (it returns \<^verbatim>\<open>None\<close> or 0, both falsy),
  after any sequence of \<^verbatim>\<open>increment\<close> and \<^verbatim>\<open>decrement\<close> calls.
\<close>

theorem counter_without_max:
  assumes "max_value = None \<or> max_value = Some 0"
    and "c = run_counter (ThreadSafeCounter_init initial max_value) ops"
  shows "increment c = ((True, c_value c + 1), c\<lparr>c_value := c_value c + 1\<rparr>)
    \<and> reached_limit c \<noteq> PyBool True \<and> \<not> truthy (reached_limit c)"
proof -
  have "c_max_value c = max_value"
    using assms(2) by (simp add: run_counter_max ThreadSafeCounter_init_def)
  with assms(1) show ?thesis
    by (auto simp: increment_def at_max_def reached_limit_def)
qed

theorem counter_without_max_witness:
  "increment (run_counter (ThreadSafeCounter_init 5 None) [Increment, Decrement, Increment])
     = ((True, 7), \<lparr>c_value = 7, c_max_value = None\<rparr>)
   \<and> reached_limit (run_counter (ThreadSafeCounter_init 5 None) [Increment, Decrement, Increment]) \<noteq> PyBool True
   \<and> increment (run_counter (ThreadSafeCounter_init 0 (Some 0)) [Increment, Increment])
     = ((True, 3), \<lparr>c_value = 3, c_max_value = Some 0\<rparr>)
   \<and> \<not> truthy (reached_limit (run_counter (ThreadSafeCounter_init 0 (Some 0)) [Increment, Increment]))"
proof -
  have v1: "\<lparr>c_value = 6, c_max_value = None\<rparr>
      = run_counter (ThreadSafeCounter_init 5 None) [Increment, Decrement, Increment]"
    by (simp add: ThreadSafeCounter_init_def increment_def decrement_def at_max_def)
  have v2: "\<lparr>c_value = 2, c_max_value = Some 0\<rparr>
      = run_counter (ThreadSafeCounter_init 0 (Some 0)) [Increment, Increment]"
    by (simp add: ThreadSafeCounter_init_def increment_def at_max_def)
  have a: "increment \<lparr>c_value = 6, c_max_value = None\<rparr>
        = ((True, 7), \<lparr>c_value = 7, c_max_value = None\<rparr>)
      \<and> reached_limit \<lparr>c_value = 6, c_max_value = None\<rparr> \<noteq> PyBool True"
    using counter_without_max [OF _ v1] by simp
  have b: "increment \<lparr>c_value = 2, c_max_value = Some 0\<rparr>
        = ((True, 3), \<lparr>c_value = 3, c_max_value = Some 0\<rparr>)
      \<and> \<not> truthy (reached_limit \<lparr>c_value = 2, c_max_value = Some 0\<rparr>)"
    using counter_without_max [OF _ v2] by simp
  show ?thesis
    using a b unfolding v1 [symmetric] v2 [symmetric] by simp
qed

section \<open>Properties of the checkpoint files\<close>

lemma load_doc_complete: "complete d \<Longrightarrow> load_doc state d = (True, manager_of d)"
  by (cases "jd_processed_appids d"; cases "jd_reserved_appids d"; cases "jd_failed_appids d")
     (simp_all add: complete_def load_doc_def manager_of_def read_ids_def)

lemma complete_snapshot: "complete (snapshot cm now)"
  by (simp add: complete_def snapshot_def)

lemma manager_of_snapshot: "manager_of (snapshot cm now) = cm"
  by (simp add: manager_of_def snapshot_def read_ids_def read_int_def)

lemma load_from_document:
  "fs p = Some (Document d) \<Longrightarrow> complete d \<Longrightarrow> load_from fs (p # rest) state = manager_of d"
  by (simp add: load_doc_complete)

lemma load_from_skip:
  "\<not> is_document (fs p) \<Longrightarrow> load_from fs (p # rest) state = load_from fs rest state"
  by (auto simp: is_document_def split: option.splits file_content.splits)

lemma load_from_ignores:
  "p \<notin> set ps \<Longrightarrow> load_from (fs(p := c)) ps state = load_from fs ps state"
  by (induction ps arbitrary: state) (auto split: option.splits file_content.splits)

lemma load_state_ignores_temp: "load_state (fs(TempFile := c)) = load_state fs"
  by (simp only: load_state_def) (simp add: load_from_ignores del: load_from.simps)

lemma load_after_rotate:
  assumes "missing_or_complete (fs ProgressFile)"
  shows "load_state (rotate_backup fs) = load_state fs"
proof (cases "fs ProgressFile")
  case None
  then show ?thesis by (simp add: rotate_backup_def)
next
  case (Some c)
  then obtain d where d: "fs ProgressFile = Some (Document d)" and c: "complete d"
    using assms by (cases c) (simp_all add: missing_or_complete_def)
  have r: "rotate_backup fs ProgressFile = None" "rotate_backup fs BackupFile = Some (Document d)"
    using d by (simp_all add: rotate_backup_def os_replace_def)
  have "load_state (rotate_backup fs) = manager_of d"
    unfolding load_state_def
    using load_from_skip [of "rotate_backup fs" ProgressFile "[BackupFile]" CursorManager_init]
      load_from_document [of "rotate_backup fs" BackupFile d "[]" CursorManager_init] r c
    by (simp add: is_document_def)
  moreover have "load_state fs = manager_of d"
    unfolding load_state_def using d c by (rule load_from_document)
  ultimately show ?thesis by simp
qed

lemma load_snapshot:
  "fs ProgressFile = Some (Document (snapshot cm now)) \<Longrightarrow> load_state fs = cm"
  unfolding load_state_def
  using load_from_document [of fs ProgressFile "snapshot cm now" "[BackupFile]" CursorManager_init]
  by (simp add: complete_snapshot manager_of_snapshot)

lemma save_state_steps:
  "\<not> se_backup_raises env \<Longrightarrow> \<not> se_write_raises env \<Longrightarrow> \<not> se_replace_raises env \<Longrightarrow>
   save_state fs cm env = commit_temp (write_temp (rotate_backup fs) cm (se_now env))"
  by (simp add: save_state_def Let_def)

text \<open>
  C4, as the code has it. When no file operation raises, \<^verbatim>\<open>save_state\<close> is the three steps
  in order: the primary is renamed to the backup, the temporary file is written, the
  temporary file is renamed onto the primary; afterwards the primary holds the new
  checkpoint, the backup holds the previous primary, and \<^verbatim>\<open>load_state\<close> gives back the saved
  manager. \<^verbatim>\<open>load_state\<close> reads the primary first, falls back to the backup, and starts clean
  when neither is a document. When the primary is missing or is a file from which all
  keys load (as every file written by \<^verbatim>\<open>save_state\<close> is), a load after a save that stopped
  between writing the temporary file and the final rename, or before writing it, gives
  what a load before the save gave.
\<close>

theorem save_state_crash_safe:
  "(\<not> se_backup_raises env \<and> \<not> se_write_raises env \<and> \<not> se_replace_raises env \<longrightarrow>
      save_state fs cm env = commit_temp (write_temp (rotate_backup fs) cm (se_now env))
      \<and> save_state fs cm env ProgressFile = Some (Document (snapshot cm (se_now env)))
      \<and> save_state fs cm env BackupFile
          = (if fs ProgressFile \<noteq> None then fs ProgressFile else fs BackupFile)
      \<and> save_state fs cm env TempFile = None
      \<and> load_state (save_state fs cm env) = cm)
   \<and> (missing_or_complete (fs ProgressFile) \<longrightarrow>
        load_state (write_temp (rotate_backup fs) cm now) = load_state fs
        \<and> load_state (rotate_backup fs) = load_state fs)
   \<and> (\<forall>d. fs ProgressFile = Some (Document d) \<and> complete d \<longrightarrow> load_state fs = manager_of d)
   \<and> (\<forall>d. \<not> is_document (fs ProgressFile) \<and> fs BackupFile = Some (Document d) \<and> complete d
        \<longrightarrow> load_state fs = manager_of d)
   \<and> (\<not> is_document (fs ProgressFile) \<and> \<not> is_document (fs BackupFile)
        \<longrightarrow> load_state fs = CursorManager_init)"
proof -
  have a: "\<not> se_backup_raises env \<and> \<not> se_write_raises env \<and> \<not> se_replace_raises env \<longrightarrow>
      save_state fs cm env = commit_temp (write_temp (rotate_backup fs) cm (se_now env))
      \<and> save_state fs cm env ProgressFile = Some (Document (snapshot cm (se_now env)))
      \<and> save_state fs cm env BackupFile
          = (if fs ProgressFile \<noteq> None then fs ProgressFile else fs BackupFile)
      \<and> save_state fs cm env TempFile = None
      \<and> load_state (save_state fs cm env) = cm"
  proof
    assume "\<not> se_backup_raises env \<and> \<not> se_write_raises env \<and> \<not> se_replace_raises env"
    then have s: "save_state fs cm env
        = commit_temp (write_temp (rotate_backup fs) cm (se_now env))"
      by (simp add: save_state_steps)
    have p: "save_state fs cm env ProgressFile = Some (Document (snapshot cm (se_now env)))"
      unfolding s by (simp add: commit_temp_def write_temp_def os_replace_def)
    have b: "save_state fs cm env BackupFile
        = (if fs ProgressFile \<noteq> None then fs ProgressFile else fs BackupFile)"
      unfolding s by (simp add: commit_temp_def write_temp_def os_replace_def rotate_backup_def)
    have t: "save_state fs cm env TempFile = None"
      unfolding s by (simp add: commit_temp_def os_replace_def)
    have l: "load_state (save_state fs cm env) = cm"
      using p by (rule load_snapshot)
    show "save_state fs cm env = commit_temp (write_temp (rotate_backup fs) cm (se_now env))
      \<and> save_state fs cm env ProgressFile = Some (Document (snapshot cm (se_now env)))
      \<and> save_state fs cm env BackupFile
          = (if fs ProgressFile \<noteq> None then fs ProgressFile else fs BackupFile)
      \<and> save_state fs cm env TempFile = None
      \<and> load_state (save_state fs cm env) = cm"
      using s p b t l by blast
  qed
  have b: "missing_or_complete (fs ProgressFile) \<longrightarrow>
        load_state (write_temp (rotate_backup fs) cm now) = load_state fs
        \<and> load_state (rotate_backup fs) = load_state fs"
    by (simp add: write_temp_def load_state_ignores_temp load_after_rotate)
  have c: "\<forall>d. fs ProgressFile = Some (Document d) \<and> complete d \<longrightarrow> load_state fs = manager_of d"
    unfolding load_state_def by (simp add: load_doc_complete)
  have d: "\<forall>d. \<not> is_document (fs ProgressFile) \<and> fs BackupFile = Some (Document d) \<and> complete d
        \<longrightarrow> load_state fs = manager_of d"
    unfolding load_state_def
    using load_from_skip [of fs ProgressFile "[BackupFile]" CursorManager_init]
    by (simp add: load_doc_complete del: load_from.simps)
      (simp add: load_doc_complete)
  have e: "\<not> is_document (fs ProgressFile) \<and> \<not> is_document (fs BackupFile)
        \<longrightarrow> load_state fs = CursorManager_init"
    unfolding load_state_def
    using load_from_skip [of fs ProgressFile "[BackupFile]" CursorManager_init]
      load_from_skip [of fs BackupFile "[]" CursorManager_init]
    by (simp del: load_from.simps) simp
  show ?thesis using a b c d e by blast
qed

text \<open>
  Whatever raises, \<^verbatim>\<open>save_state\<close> leaves a primary and a backup that are missing or load
  completely, if it found them so.
\<close>

lemma save_state_keeps_complete:
  "missing_or_complete (fs ProgressFile) \<Longrightarrow> missing_or_complete (fs BackupFile) \<Longrightarrow>
   missing_or_complete (save_state fs cm env ProgressFile)
   \<and> missing_or_complete (save_state fs cm env BackupFile)"
  by (auto simp: save_state_def Let_def restore_backup_def rotate_backup_def write_temp_def
      commit_temp_def os_replace_def missing_or_complete_def complete_snapshot)

lemmas checkpoint_example_defs = example_damaged_def example_sound_def example_saved_def
  example_current_def example_save_env_def

text \<open>
  With a primary that \<^verbatim>\<open>json.load\<close> rejects beside a good backup, a load before the save
  gives the backup's checkpoint. The save renames the damaged primary over the backup; a
  load after the save stopped before the final rename starts clean: neither the
  checkpoint before the save nor the one being saved.
\<close>

theorem save_state_damaged_primary:
  "load_state example_damaged = example_saved
   \<and> load_state (write_temp (rotate_backup example_damaged) example_current 2)
       = CursorManager_init
   \<and> CursorManager_init \<noteq> example_saved \<and> CursorManager_init \<noteq> example_current"
  by (simp add: checkpoint_example_defs load_state_def load_doc_def read_ids_def read_int_def
      snapshot_def rotate_backup_def write_temp_def os_replace_def CursorManager_init_def)

text \<open>
  A primary whose \<^verbatim>\<open>reserved_appids\<close> is not an array leaves \<^verbatim>\<open>load_state\<close>, with no backup to
  fall back to, in a half-read state: the processed ids of the file and nothing else.
\<close>

lemma half_read_state:
  "load_state ((\<lambda>p. None)(ProgressFile \<mapsto>
       Document ((snapshot example_current 1)\<lparr>jd_reserved_appids := NotIds\<rparr>)))
     = CursorManager_init\<lparr>processed_appids := {1, 2}\<rparr>"
  by (simp add: checkpoint_example_defs load_state_def load_doc_def read_ids_def snapshot_def
      CursorManager_init_def)

theorem save_state_crash_safe_witness:
  "load_state (save_state example_sound example_current example_save_env) = example_current
   \<and> load_state (write_temp (rotate_backup example_sound) example_current 2) = example_saved
   \<and> load_state (rotate_backup example_sound) = example_saved"
proof -
  have e: "\<not> se_backup_raises example_save_env \<and> \<not> se_write_raises example_save_env
      \<and> \<not> se_replace_raises example_save_env"
    by (simp add: example_save_env_def)
  have h: "missing_or_complete (example_sound ProgressFile)"
    by (simp add: example_sound_def missing_or_complete_def complete_snapshot)
  have before: "load_state example_sound = example_saved"
    by (simp add: example_sound_def load_snapshot)
  note u = save_state_crash_safe [of example_save_env example_sound example_current 2]
  have a: "load_state (save_state example_sound example_current example_save_env)
      = example_current"
    using u e by blast
  have b: "load_state (write_temp (rotate_backup example_sound) example_current 2)
        = load_state example_sound
      \<and> load_state (rotate_backup example_sound) = load_state example_sound"
    using u h by blast
  show ?thesis using a b before by simp
qed

section \<open>Properties of make\_request\<close>

lemma loop_step:
  "\<not> ae_flag_set (env a) \<Longrightarrow>
   (\<exists>r. make_request_loop env retries (a # rest) tr = (r, tr\<lparr>rt_gets := rt_gets tr + 1\<rparr>))
   \<or> (\<exists>w. make_request_loop env retries (a # rest) tr
          = make_request_loop env retries rest (slept (tr\<lparr>rt_gets := rt_gets tr + 1\<rparr>) w))"
  by (cases "ae_outcome (env a)") (auto simp: Let_def)

lemma loop_gets:
  "rt_gets tr = a \<Longrightarrow> a \<le> n \<Longrightarrow>
   a \<le> rt_gets (snd (make_request_loop env retries [a..<n] tr))
   \<and> rt_gets (snd (make_request_loop env retries [a..<n] tr)) \<le> n"
proof (induction "n - a" arbitrary: a tr)
  case 0
  then show ?case by simp
next
  case (Suc d)
  then have lt: "a < n" and d: "d = n - Suc a" by simp_all
  have unf: "[a..<n] = a # [Suc a..<n]" using lt by (simp add: upt_conv_Cons)
  show ?case
  proof (cases "ae_flag_set (env a)")
    case True
    then show ?thesis using Suc.prems unfolding unf by simp
  next
    case False
    from loop_step [of env a retries "[Suc a..<n]" tr, OF False]
    show ?thesis
    proof (elim disjE exE)
      fix r
      assume "make_request_loop env retries (a # [Suc a..<n]) tr
          = (r, tr\<lparr>rt_gets := rt_gets tr + 1\<rparr>)"
      then show ?thesis using Suc.prems lt unfolding unf by simp
    next
      fix w
      assume st: "make_request_loop env retries (a # [Suc a..<n]) tr
          = make_request_loop env retries [Suc a..<n] (slept (tr\<lparr>rt_gets := rt_gets tr + 1\<rparr>) w)"
      have g: "rt_gets (slept (tr\<lparr>rt_gets := rt_gets tr + 1\<rparr>) w) = Suc a"
        using Suc.prems(1) by (simp add: slept_def)
      from Suc.hyps(1) [OF d g] lt show ?thesis unfolding unf st by simp
    qed
  qed
qed

lemma loop_goes_on:
  "goes_on env retries a \<Longrightarrow>
   make_request_loop env retries (a # rest) \<lparr>rt_gets = g, rt_sleeps = sl\<rparr>
     = make_request_loop env retries rest
         \<lparr>rt_gets = g + 1, rt_sleeps = sl @ [sleep_after env a]\<rparr>"
  by (cases "ae_outcome (env a)")
     (auto simp: goes_on_def sleep_after_def is_rate_limited_def is_request_error_def Let_def
        slept_def split: if_splits)

lemma loop_run:
  "a \<le> k \<Longrightarrow> k \<le> n \<Longrightarrow> \<forall>j. a \<le> j \<and> j < k \<longrightarrow> goes_on env retries j \<Longrightarrow>
   make_request_loop env retries [a..<n] \<lparr>rt_gets = a, rt_sleeps = sl\<rparr>
     = make_request_loop env retries [k..<n]
         \<lparr>rt_gets = k, rt_sleeps = sl @ map (sleep_after env) [a..<k]\<rparr>"
proof (induction "k - a" arbitrary: a sl)
  case 0
  then show ?case by simp
next
  case (Suc d)
  then have lt: "a < k" "a < n" and d: "d = k - Suc a" by simp_all
  have unf: "[a..<n] = a # [Suc a..<n]" and unk: "[a..<k] = a # [Suc a..<k]"
    using lt by (simp_all add: upt_conv_Cons)
  have g: "goes_on env retries a" using Suc.prems(3) lt by simp
  have ih: "make_request_loop env retries [Suc a..<n]
        \<lparr>rt_gets = Suc a, rt_sleeps = sl @ [sleep_after env a]\<rparr>
      = make_request_loop env retries [k..<n]
        \<lparr>rt_gets = k, rt_sleeps = (sl @ [sleep_after env a]) @ map (sleep_after env) [Suc a..<k]\<rparr>"
    using Suc.hyps(1) [OF d, of "sl @ [sleep_after env a]"] lt Suc.prems by simp
  show ?case
    unfolding unf unk using loop_goes_on [OF g, of "[Suc a..<n]" a sl] ih
    by simp
qed

lemma make_request_run:
  "k \<le> nat retries \<Longrightarrow> \<forall>j < k. goes_on env retries j \<Longrightarrow>
   make_request env retries
     = make_request_loop env retries [k..<nat retries]
         \<lparr>rt_gets = k, rt_sleeps = map (sleep_after env) [0..<k]\<rparr>"
  unfolding make_request_def using loop_run [of 0 k "nat retries" env retries "[]"] by simp

lemma make_request_flag:
  assumes "k < nat retries" and "\<forall>j < k. goes_on env retries j" and "ae_flag_set (env k)"
  shows "make_request env retries
     = (Returned None, \<lparr>rt_gets = k, rt_sleeps = map (sleep_after env) [0..<k]\<rparr>)"
proof -
  have unf: "[k..<nat retries] = k # [Suc k..<nat retries]"
    using assms(1) by (simp add: upt_conv_Cons)
  show ?thesis
    using make_request_run [of k retries env] assms unfolding unf by simp
qed

lemma make_request_response:
  assumes "k < nat retries" and "\<forall>j < k. goes_on env retries j" and "\<not> ae_flag_set (env k)"
    and "ae_outcome (env k) = Response status body" and "status \<noteq> 429"
    and "\<not> raises_for_status status"
  shows "make_request env retries
     = (Returned (Some (status, body)),
        \<lparr>rt_gets = k + 1, rt_sleeps = map (sleep_after env) [0..<k]\<rparr>)"
proof -
  have unf: "[k..<nat retries] = k # [Suc k..<nat retries]"
    using assms(1) by (simp add: upt_conv_Cons)
  show ?thesis
    using make_request_run [of k retries env] assms unfolding unf by (simp add: Let_def)
qed

lemma make_request_last_error:
  assumes "k < nat retries" and "\<forall>j < k. goes_on env retries j" and "\<not> ae_flag_set (env k)"
    and "is_request_error (ae_outcome (env k))" and "int k = retries - 1"
  shows "make_request env retries
     = (Returned None, \<lparr>rt_gets = k + 1, rt_sleeps = map (sleep_after env) [0..<k]\<rparr>)"
proof -
  have unf: "[k..<nat retries] = k # [Suc k..<nat retries]"
    using assms(1) by (simp add: upt_conv_Cons)
  show ?thesis
    using make_request_run [of k retries env] assms unfolding unf
    by (cases "ae_outcome (env k)") (auto simp: Let_def is_request_error_def)
qed

text \<open>A 429 at attempt 1024 or later raises out of \<^verbatim>\<open>make_request\<close>.\<close>

lemma make_request_overflow:
  assumes "k < nat retries" and "\<forall>j < k. goes_on env retries j" and "\<not> ae_flag_set (env k)"
    and "is_rate_limited (ae_outcome (env k))" and "1024 \<le> k"
  shows "make_request env retries
     = (RaisedOverflowError, \<lparr>rt_gets = k + 1, rt_sleeps = map (sleep_after env) [0..<k]\<rparr>)"
proof -
  have unf: "[k..<nat retries] = k # [Suc k..<nat retries]"
    using assms(1) by (simp add: upt_conv_Cons)
  show ?thesis
    using make_request_run [of k retries env] assms unfolding unf
    by (cases "ae_outcome (env k)") (auto simp: Let_def is_rate_limited_def)
qed

lemma make_request_exhausted:
  assumes "\<forall>j < nat retries. goes_on env retries j"
  shows "make_request env retries
     = (Returned None,
        \<lparr>rt_gets = nat retries, rt_sleeps = map (sleep_after env) [0..<nat retries]\<rparr>)"
  using make_request_run [of "nat retries" retries env] assms by simp


text \<open>
  C8, as the code has it. \<^verbatim>\<open>make_request\<close> calls \<^verbatim>\<open>requests.get\<close> at most \<^verbatim>\<open>retries\<close> times. As
  long as no event is set and each attempt is answered by a 429 (below attempt 1024) or
  meets another request error with an attempt left, the code sleeps
  \<open>min (2 ^ attempt + jitter) 10\<close> after the 429 and \<open>min (0.5 * (attempt + 1)) 3\<close> after the
  other error, and then makes the next attempt. The first attempt \<open>k\<close> that does not go on
  decides the result: with an event set as it starts, \<^verbatim>\<open>None\<close> after \<open>k\<close> requests and no further
  sleep; with a response that is neither a 429 nor an error status, that response; with a
  request error at the last attempt, \<^verbatim>\<open>None\<close> without a sleep. When every attempt goes on,
  the result is \<^verbatim>\<open>None\<close> after \<^verbatim>\<open>retries\<close> requests.
\<close>

theorem make_request_retries:
  "rt_gets (snd (make_request env retries)) \<le> nat retries
   \<and> (k < nat retries \<and> (\<forall>j < k. goes_on env retries j) \<and> ae_flag_set (env k) \<longrightarrow>
        make_request env retries
          = (Returned None, \<lparr>rt_gets = k, rt_sleeps = map (sleep_after env) [0..<k]\<rparr>))
   \<and> (k < nat retries \<and> (\<forall>j < k. goes_on env retries j) \<and> \<not> ae_flag_set (env k)
        \<and> ae_outcome (env k) = Response status body \<and> status \<noteq> 429
        \<and> \<not> raises_for_status status \<longrightarrow>
        make_request env retries
          = (Returned (Some (status, body)),
             \<lparr>rt_gets = k + 1, rt_sleeps = map (sleep_after env) [0..<k]\<rparr>))
   \<and> (k < nat retries \<and> (\<forall>j < k. goes_on env retries j) \<and> \<not> ae_flag_set (env k)
        \<and> is_request_error (ae_outcome (env k)) \<and> int k = retries - 1 \<longrightarrow>
        make_request env retries
          = (Returned None, \<lparr>rt_gets = k + 1, rt_sleeps = map (sleep_after env) [0..<k]\<rparr>))
   \<and> ((\<forall>j < nat retries. goes_on env retries j) \<longrightarrow>
        make_request env retries
          = (Returned None,
             \<lparr>rt_gets = nat retries, rt_sleeps = map (sleep_after env) [0..<nat retries]\<rparr>))
   \<and> (is_rate_limited (ae_outcome (env a)) \<longrightarrow>
        sleep_after env a = min (2 ^ a + ae_jitter (env a)) 10)
   \<and> (is_request_error (ae_outcome (env a)) \<longrightarrow>
        sleep_after env a = min (0.5 * (real a + 1)) 3)
   \<and> (goes_on env retries a \<longleftrightarrow>
        \<not> ae_flag_set (env a)
        \<and> (is_rate_limited (ae_outcome (env a)) \<and> a < 1024
           \<or> is_request_error (ae_outcome (env a)) \<and> int a \<noteq> retries - 1))"
proof -
  have g: "rt_gets (snd (make_request env retries)) \<le> nat retries"
    using loop_gets [of "\<lparr>rt_gets = 0, rt_sleeps = []\<rparr>" 0 "nat retries" env retries]
    by (simp add: make_request_def)
  have s1: "is_rate_limited (ae_outcome (env a)) \<longrightarrow>
        sleep_after env a = min (2 ^ a + ae_jitter (env a)) 10"
    by (simp add: sleep_after_def)
  have s2: "is_request_error (ae_outcome (env a)) \<longrightarrow>
        sleep_after env a = min (0.5 * (real a + 1)) 3"
    by (cases "ae_outcome (env a)")
       (auto simp: sleep_after_def is_request_error_def is_rate_limited_def)
  have s3: "goes_on env retries a \<longleftrightarrow>
        \<not> ae_flag_set (env a)
        \<and> (is_rate_limited (ae_outcome (env a)) \<and> a < 1024
           \<or> is_request_error (ae_outcome (env a)) \<and> int a \<noteq> retries - 1)"
    by (cases "ae_outcome (env a)")
       (auto simp: goes_on_def is_request_error_def is_rate_limited_def)
  show ?thesis
    using g s1 s2 s3 make_request_flag [of k retries env]
      make_request_response [of k retries env status body]
      make_request_last_error [of k retries env] make_request_exhausted [of retries env]
    by blast
qed

theorem make_request_retries_witness:
  "make_request example_attempts 3 = (Returned None, \<lparr>rt_gets = 2, rt_sleeps = [3 / 2, 1]\<rparr>)
   \<and> make_request example_retry 3
       = (Returned (Some (200, ''ok'')), \<lparr>rt_gets = 2, rt_sleeps = [1 / 2]\<rparr>)"
proof -
  have two: "[0..<2] = [0, Suc 0]" and one: "[0..<1] = [0]"
    by (simp_all add: upt_rec)
  have h1: "(2::nat) < nat 3 \<and> (\<forall>j < 2. goes_on example_attempts 3 j)
      \<and> ae_flag_set (example_attempts 2)"
    by (auto dest!: less_2_cases
        simp: goes_on_def example_attempts_def is_rate_limited_def is_request_error_def)
  have h2: "(1::nat) < nat 3 \<and> (\<forall>j < 1. goes_on example_retry 3 j)
      \<and> \<not> ae_flag_set (example_retry 1)
      \<and> ae_outcome (example_retry 1) = Response 200 ''ok'' \<and> (200::int) \<noteq> 429
      \<and> \<not> raises_for_status 200"
    by (simp add: goes_on_def example_retry_def is_rate_limited_def is_request_error_def
        raises_for_status_def)
  have a: "make_request example_attempts 3
      = (Returned None, \<lparr>rt_gets = 2, rt_sleeps = map (sleep_after example_attempts) [0..<2]\<rparr>)"
    using make_request_retries [of example_attempts 3 2] h1 by blast
  have b: "make_request example_retry 3
      = (Returned (Some (200, ''ok'')),
         \<lparr>rt_gets = 1 + 1, rt_sleeps = map (sleep_after example_retry) [0..<1]\<rparr>)"
    using make_request_retries [of example_retry 3 1 200 "''ok''"] h2 by blast
  have sa: "map (sleep_after example_attempts) [0..<2] = [3 / 2, 1]"
    unfolding two by (simp add: sleep_after_def example_attempts_def is_rate_limited_def)
  have sb: "map (sleep_after example_retry) [0..<1] = [1 / 2]"
    unfolding one by (simp add: sleep_after_def example_retry_def is_rate_limited_def)
  show ?thesis using a b unfolding sa sb by simp
qed

text \<open>
  With 1025 attempts that are all answered by a 429, the attempt numbered 1024 does not
  sleep \<open>min (2 ^ 1024 + jitter) 10\<close>, and \<^verbatim>\<open>make_request\<close> does not return \<^verbatim>\<open>None\<close>: the sum
  raises \<^verbatim>\<open>OverflowError\<close>.
\<close>

theorem make_request_overflow_at_1024:
  "fst (make_request always_rate_limited 1025) = RaisedOverflowError
   \<and> rt_gets (snd (make_request always_rate_limited 1025)) = 1025
   \<and> length (rt_sleeps (snd (make_request always_rate_limited 1025))) = 1024"
proof -
  have h: "(1024::nat) < nat 1025" "\<forall>j < 1024. goes_on always_rate_limited 1025 j"
    "\<not> ae_flag_set (always_rate_limited 1024)"
    "is_rate_limited (ae_outcome (always_rate_limited 1024))" "(1024::nat) \<le> 1024"
    by (simp_all add: goes_on_def always_rate_limited_def is_rate_limited_def)
  show ?thesis
    unfolding make_request_overflow [OF h] by simp
qed

section \<open>Properties of get\_app\_reviews\<close>








section \<open>Properties of processar\_um\_jogo\<close>

lemma observe_fields [simp]:
  "w_cursor (observe env p w) = w_cursor w" "w_counter (observe env p w) = w_counter w"
  by (simp_all add: observe_def)

lemma save_reviews_fields [simp]:
  "w_cursor (save_reviews env appid w k rs) = w_cursor w"
  "w_counter (save_reviews env appid w k rs) = w_counter w"
  by (induction rs arbitrary: w k) (simp_all add: Let_def)

lemma mark_failed_sets [simp]:
  "reserved_appids (w_cursor (mark_failed appid w)) = reserved_appids (w_cursor w) - {appid}"
  "processed_appids (w_cursor (mark_failed appid w)) = processed_appids (w_cursor w)"
  by (simp_all add: mark_failed_def mark_processed_def)




lemma processar_um_jogo_after_reserve:
  assumes "game_appid app = Some appid" and "appid \<noteq> 0"
    and "\<not> w_stop_processing (observe env AtEntry w)"
    and "\<not> w_goal_reached (observe env AtEntry w)"
    and "fst (reserve_appid (w_cursor w) appid)"
  shows "processar_um_jogo env a app w =
     (let w1 = (observe env AtEntry w)\<lparr>w_cursor := snd (reserve_appid (w_cursor w) appid)\<rparr> in
      if truthy (reached_limit (w_counter w1))
      then (False, w1\<lparr>w_cursor := release_reservation (w_cursor w1) appid,
                       w_goal_reached := True\<rparr>)
      else
        case try_block env a appid w1 of
          (Some result, w2) \<Rightarrow> (result, w2)
        | (None, w2) \<Rightarrow>
            (False, w2\<lparr>w_cursor := release_reservation (w_cursor w2) appid,
                        w_counter := snd (decrement (w_counter w2))\<rparr>))"
  using assms by (simp add: processar_um_jogo_def Let_def)


text \<open>
  The \<^verbatim>\<open>except\<close> handler calls \<^verbatim>\<open>games_counter.decrement()\<close> whatever the \<^verbatim>\<open>try\<close> block had
  done: an exception in \<^verbatim>\<open>get_app_details\<close>, before the counter is touched, takes one off
  the counter (floored at zero).
\<close>

lemma processar_um_jogo_exception_decrements:
  assumes "game_appid app = Some appid" and "appid \<noteq> 0"
    and "\<not> w_stop_processing (observe env AtEntry w)"
    and "\<not> w_goal_reached (observe env AtEntry w)"
    and "fst (reserve_appid (w_cursor w) appid)"
    and "\<not> truthy (reached_limit (w_counter w))"
    and "ie_raises env Fetching"
  shows "c_value (w_counter (snd (processar_um_jogo env a app w)))
      = max 0 (c_value (w_counter w) - 1)"
  unfolding processar_um_jogo_after_reserve [OF assms(1-5), of a]
  using assms(6,7) by (simp add: Let_def try_block_def decrement_def)

lemmas example_defs = example_item_def example_world_def example_args_def example_game_def
  example_details_def CursorManager_init_def ThreadSafeCounter_init_def

text \<open>
  C6. With the counter at 2 of 10 and app 70 free, an exception raised in
  \<^verbatim>\<open>get_app_details\<close> leaves the reservation released and the counter at 1, although the
  counter was never incremented for the item.
\<close>

theorem processar_um_jogo_exception_counter:
  "c_value (w_counter example_world) = 2
   \<and> fst (reserve_appid (w_cursor example_world) 70)
   \<and> processar_um_jogo (example_item (Some Fetching)) example_args example_game example_world
      = (False, example_world\<lparr>w_counter := \<lparr>c_value = 1, c_max_value = Some 10\<rparr>\<rparr>)"
  by (simp add: example_defs processar_um_jogo_def try_block_def observe_def Let_def
      reserve_appid_def release_reservation_def reached_limit_def decrement_def)



end
